theory Spec2Isabelle
  imports Complex_Main "HOL-Library.Word"
begin

unbundle bit_operations_syntax

section \<open>Mapbox Vector Tile driver (mvt.cpp)\<close>

subsection \<open>Coordinate transformation: class Trafo\<close>

text \<open>
  The members \<open>shift_\<close> (a \<open>math::Point2d\<close>) and \<open>scale_\<close> (a \<open>math::Size2f\<close>) are
  pairs of floating-point numbers. They are written by the constructor and read by
  nothing that is compiled: the affine versions of \<open>x\<close> and \<open>y\<close> sit inside
  \<open>#if 0\<close>. The model keeps them as pairs of reals; no result below depends on
  their values, so the rounding of the constructor's divisions plays no role.
  \<open>math::Extents2\<close> is taken as its lower-left and upper-right corners, with
  \<open>math::ul\<close> the upper-left corner and \<open>math::size\<close> the width and height.
\<close>

record Extents2 =
  ll :: "real \<times> real"
  ur :: "real \<times> real"

definition ul :: "Extents2 \<Rightarrow> real \<times> real" where
  "ul e = (fst (ll e), snd (ur e))"

definition size2 :: "Extents2 \<Rightarrow> real \<times> real" where
  "size2 e = (fst (ur e) - fst (ll e), snd (ur e) - snd (ll e))"

record Trafo =
  shift :: "real \<times> real"
  scale :: "real \<times> real"

text \<open>The constructor \<open>Trafo(extent, extents)\<close>.\<close>

definition Trafo_new :: "real \<Rightarrow> Extents2 option \<Rightarrow> Trafo" where
  "Trafo_new extent extents =
     (case extents of
        Some e \<Rightarrow>
          \<lparr>shift = ul e,
           scale = (fst (size2 e) / extent, snd (size2 e) / (- extent))\<rparr>
      | None \<Rightarrow>
          \<lparr>shift = (0, 1),
           scale = (1 / extent, 1 / extent)\<rparr>)"

text \<open>
  \<open>Trafo::x\<close> and \<open>Trafo::y\<close> as compiled: \<open>return value\<close>, the conversion of a
  \<open>std::uint32_t\<close> to \<open>double\<close>, which is exact for every 32-bit value.
\<close>

definition Trafo_x :: "Trafo \<Rightarrow> 32 word \<Rightarrow> real" where
  "Trafo_x t v = real (unat v)"

definition Trafo_y :: "Trafo \<Rightarrow> 32 word \<Rightarrow> real" where
  "Trafo_y t v = real (unat v)"

subsection \<open>Command stream reader: class GeometryReader\<close>

text \<open>
  Every failure of the decoder is a \<open>std::runtime_error\<close> raised by \<open>LOGTHROW\<close>.
  The model names the three kinds of message:
  \<^item> \<open>StreamUnderrun\<close>: "Cannot read command past the end of input." and
    "Cannot read shift past the end of input.";
  \<^item> \<open>UnexpectedOpcode\<close>: "Unexpected type: ... (expected: ...).";
  \<^item> \<open>InvalidCount\<close>: "Expected nonzero count", "Expected zero count" and
    "Expected single count".
\<close>

datatype error = StreamUnderrun | UnexpectedOpcode | InvalidCount

type_synonym MvtGeometry = "32 word list"

record Cursor =
  cur_x :: "32 word"
  cur_y :: "32 word"

text \<open>\<open>Cursor() : x(), y()\<close>\<close>

definition Cursor_new :: Cursor where
  "Cursor_new = \<lparr>cur_x = 0, cur_y = 0\<rparr>"

text \<open>
  \<open>enum class Type { moveTo = 1, lineTo = 2, closePath = 7 }\<close>. A value of the
  enumeration is produced by \<open>static_cast<Type>(raw & 0x7)\<close>, so it can be any of
  0..7; the model keeps the enumeration as its integer value.
\<close>

type_synonym Type = "32 word"

definition moveTo :: Type where "moveTo = 1"
definition lineTo :: Type where "lineTo = 2"
definition closePath :: Type where "closePath = 7"

record Command =
  cmd_type :: Type
  cmd_count :: "32 word"

text \<open>\<open>Command(raw) : type(static_cast<Type>(raw & 0x7)), count(raw >> 3)\<close>\<close>

definition Command_new :: "32 word \<Rightarrow> Command" where
  "Command_new raw = \<lparr>cmd_type = raw AND 7, cmd_count = drop_bit 3 raw\<rparr>"

text \<open>
  The reader is its base \<open>Trafo\<close> and the unread part of the source, from \<open>pos_\<close>
  to \<open>end_\<close>.
\<close>

record GeometryReader =
  gr_trafo :: Trafo
  gr_pos :: MvtGeometry

definition GeometryReader_new :: "Trafo \<Rightarrow> MvtGeometry \<Rightarrow> GeometryReader" where
  "GeometryReader_new t source = \<lparr>gr_trafo = t, gr_pos = source\<rparr>"

text \<open>\<open>operator bool() const { return pos_ != end_; }\<close>\<close>

definition GeometryReader_bool :: "GeometryReader \<Rightarrow> bool" where
  "GeometryReader_bool gr = (gr_pos gr \<noteq> [])"

definition GeometryReader_command ::
  "GeometryReader \<Rightarrow> Type \<Rightarrow> error + (Command \<times> GeometryReader)" where
  "GeometryReader_command gr t =
     (case gr_pos gr of
        [] \<Rightarrow> Inl StreamUnderrun
      | raw # rest \<Rightarrow>
          (let c = Command_new raw in
           if cmd_type c \<noteq> t then Inl UnexpectedOpcode
           else Inr (c, gr\<lparr>gr_pos := rest\<rparr>)))"

definition GeometryReader_shift ::
  "GeometryReader \<Rightarrow> Cursor \<Rightarrow> error + (Cursor \<times> GeometryReader)" where
  "GeometryReader_shift gr cursor =
     (case gr_pos gr of
        [] \<Rightarrow> Inl StreamUnderrun
      | dx # rest \<Rightarrow>
          (case rest of
             [] \<Rightarrow> Inl StreamUnderrun
           | dy # rest' \<Rightarrow>
               Inr (cursor\<lparr>cur_x := cur_x cursor + dx, cur_y := cur_y cursor + dy\<rparr>,
                    gr\<lparr>gr_pos := rest'\<rparr>)))"

definition checkNonzero :: "Command \<Rightarrow> error + Command" where
  "checkNonzero cmd = (if cmd_count cmd = 0 then Inl InvalidCount else Inr cmd)"

definition checkZero :: "Command \<Rightarrow> error + Command" where
  "checkZero cmd = (if cmd_count cmd \<noteq> 0 then Inl InvalidCount else Inr cmd)"

definition checkSingle :: "Command \<Rightarrow> error + Command" where
  "checkSingle cmd = (if cmd_count cmd \<noteq> 1 then Inl InvalidCount else Inr cmd)"

subsection \<open>Geometries handed to the host\<close>

text \<open>
  The OGR classes the builders instantiate. A coordinate is the pair of doubles passed to
  \<open>OGRPoint(x, y)\<close> or \<open>addPoint(x, y)\<close>; a line string or linear ring is its points in
  the order of the \<open>addPoint\<close> calls; a polygon is its rings in the order of the
  \<open>addRingDirectly\<close> calls (OGR takes the first ring added as the exterior ring and
  every later one as an interior ring); a collection is its members in the order of
  the \<open>addGeometryDirectly\<close> calls. A \<open>std::unique_ptr\<close> to a geometry may be
  null and is an \<open>option\<close>. \<open>OGRMultiPoint\<close> is OGR's class for a collection of points,
  beside \<open>OGRMultiLineString\<close> and \<open>OGRMultiPolygon\<close>; it is a class of its own, with
  its own geometry type, and no builder of the driver instantiates it.
\<close>

type_synonym coord = "real \<times> real"

datatype OGRGeometry =
    OGRPoint real real
  | OGRGeometryCollection "OGRGeometry list"
  | OGRMultiPoint "OGRGeometry list"
  | OGRLineString "coord list"
  | OGRMultiLineString "coord list list"
  | OGRPolygon "coord list list"
  | OGRMultiPolygon "coord list list list"

text \<open>The pair \<open>gr.x(cur.x), gr.y(cur.y)\<close>.\<close>

definition coord_at :: "GeometryReader \<Rightarrow> Cursor \<Rightarrow> coord" where
  "coord_at gr cur = (Trafo_x (gr_trafo gr) (cur_x cur), Trafo_y (gr_trafo gr) (cur_y cur))"

subsection \<open>Points\<close>

text \<open>
  The loop \<open>while (moveTo.count--) { gr.shift(cur); g->addGeometryDirectly(...); }\<close>:
  the count is unsigned, so the body runs \<open>count\<close> times.
\<close>

fun points_loop ::
  "nat \<Rightarrow> GeometryReader \<Rightarrow> Cursor \<Rightarrow> OGRGeometry list \<Rightarrow> error + OGRGeometry list" where
  "points_loop 0 gr cur g = Inr g"
| "points_loop (Suc n) gr cur g =
     (case GeometryReader_shift gr cur of
        Inl e \<Rightarrow> Inl e
      | Inr (cur', gr') \<Rightarrow>
          points_loop n gr' cur'
            (g @ [OGRPoint (fst (coord_at gr' cur')) (snd (coord_at gr' cur'))]))"

definition points :: "GeometryReader \<Rightarrow> error + OGRGeometry option" where
  "points gr =
     (let cur = Cursor_new in
      case GeometryReader_command gr moveTo of
        Inl e \<Rightarrow> Inl e
      | Inr (c, gr1) \<Rightarrow>
          (case checkNonzero c of
             Inl e \<Rightarrow> Inl e
           | Inr moveTo' \<Rightarrow>
               if cmd_count moveTo' = 1 then
                 (case GeometryReader_shift gr1 cur of
                    Inl e \<Rightarrow> Inl e
                  | Inr (cur', gr2) \<Rightarrow>
                      Inr (Some (OGRPoint (fst (coord_at gr2 cur')) (snd (coord_at gr2 cur')))))
               else
                 (case points_loop (unat (cmd_count moveTo')) gr1 cur [] of
                    Inl e \<Rightarrow> Inl e
                  | Inr g \<Rightarrow> Inr (Some (OGRGeometryCollection g)))))"

subsection \<open>Line strings and rings\<close>

text \<open>The loop \<open>while (lineTo.count--) { gr.shift(cur); ls->addPoint(...); }\<close>.\<close>

fun lineTo_loop ::
  "nat \<Rightarrow> GeometryReader \<Rightarrow> Cursor \<Rightarrow> coord list
     \<Rightarrow> error + (coord list \<times> Cursor \<times> GeometryReader)" where
  "lineTo_loop 0 gr cur ls = Inr (ls, cur, gr)"
| "lineTo_loop (Suc n) gr cur ls =
     (case GeometryReader_shift gr cur of
        Inl e \<Rightarrow> Inl e
      | Inr (cur', gr') \<Rightarrow> lineTo_loop n gr' cur' (ls @ [coord_at gr' cur']))"

text \<open>
  \<open>singleLineString(gr, cur, closed)\<close> returns the line string; the cursor and the
  reader are taken by reference, so the model returns them as well. The parameter
  \<open>closed\<close> is \<open>closed_ring\<close> here.
\<close>

definition singleLineString ::
  "GeometryReader \<Rightarrow> Cursor \<Rightarrow> bool \<Rightarrow> error + (coord list \<times> Cursor \<times> GeometryReader)" where
  "singleLineString gr cur closed_ring =
     (case GeometryReader_command gr moveTo of
        Inl e \<Rightarrow> Inl e
      | Inr (c1, gr1) \<Rightarrow>
     (case checkSingle c1 of
        Inl e \<Rightarrow> Inl e
      | Inr moveTo' \<Rightarrow>
     (case GeometryReader_shift gr1 cur of
        Inl e \<Rightarrow> Inl e
      | Inr (start, gr2) \<Rightarrow>
     (case GeometryReader_command gr2 lineTo of
        Inl e \<Rightarrow> Inl e
      | Inr (c2, gr3) \<Rightarrow>
     (case checkNonzero c2 of
        Inl e \<Rightarrow> Inl e
      | Inr lineTo' \<Rightarrow>
     (case lineTo_loop (unat (cmd_count lineTo')) gr3 start [coord_at gr2 start] of
        Inl e \<Rightarrow> Inl e
      | Inr (ls, cur', gr4) \<Rightarrow>
          if \<not> closed_ring then Inr (ls, cur', gr4)
          else
     (case GeometryReader_command gr4 closePath of
        Inl e \<Rightarrow> Inl e
      | Inr (c3, gr5) \<Rightarrow>
     (case checkNonzero c3 of
        Inl e \<Rightarrow> Inl e
      | Inr closePath' \<Rightarrow> Inr (ls @ [coord_at gr5 start], cur', gr5)))))))))"

text \<open>
  The body of \<open>lineStrings\<close>. \<open>single\<close> and \<open>multi\<close> are the two
  \<open>std::unique_ptr\<close>s of the function. \<open>start_multi\<close> is the block
  \<open>if (single) { multi.reset(new OGRMultiLineString()); multi->addGeometryDirectly(single.release()); }\<close>,
  which leaves \<open>single\<close> null.
\<close>

definition start_multi ::
  "coord list option \<Rightarrow> coord list list option \<Rightarrow> coord list option \<times> coord list list option" where
  "start_multi single multi =
     (case single of
        Some s \<Rightarrow> (None, Some [s])
      | None \<Rightarrow> (None, multi))"

function lineStrings_loop ::
  "GeometryReader \<Rightarrow> Cursor \<Rightarrow> coord list option \<Rightarrow> coord list list option
     \<Rightarrow> error + (coord list option \<times> coord list list option)" where
  "lineStrings_loop gr cur single multi =
     (if \<not> GeometryReader_bool gr then Inr (single, multi)
      else
        (case singleLineString gr cur False of
           Inl e \<Rightarrow> Inl e
         | Inr (ls, cur', gr') \<Rightarrow>
             (case snd (start_multi single multi) of
                Some m \<Rightarrow> lineStrings_loop gr' cur' None (Some (m @ [ls]))
              | None \<Rightarrow> lineStrings_loop gr' cur' (Some ls) None)))"
  by pat_completeness auto
termination
proof -
  have loop: "length (gr_pos g') \<le> length (gr_pos g)"
    if "lineTo_loop n g c l = Inr (l', c', g')" for n g c l l' c' g'
    using that
  proof (induction n arbitrary: g c l)
    case 0
    then show ?case by simp
  next
    case (Suc n)
    from Suc.prems obtain c1 g1 where
      s: "GeometryReader_shift g c = Inr (c1, g1)" and
      r: "lineTo_loop n g1 c1 (l @ [coord_at g1 c1]) = Inr (l', c', g')"
      by (auto split: sum.splits)
    from s have "length (gr_pos g1) \<le> length (gr_pos g)"
      by (auto simp: GeometryReader_shift_def split: list.splits)
    with Suc.IH [OF r] show ?case by simp
  qed
  have single: "length (gr_pos g') < length (gr_pos g)"
    if "singleLineString g c b = Inr (l', c', g')" for g c b l' c' g'
    using that
    by (auto simp: singleLineString_def GeometryReader_command_def GeometryReader_shift_def
          Let_def split: list.splits sum.splits if_splits dest!: loop)
  show ?thesis
    by (relation "measure (\<lambda>(gr, cur, single, multi). length (gr_pos gr))")
       (auto dest: single)
qed

definition lineStrings :: "GeometryReader \<Rightarrow> error + OGRGeometry option" where
  "lineStrings gr =
     (case lineStrings_loop gr Cursor_new None None of
        Inl e \<Rightarrow> Inl e
      | Inr (single, multi) \<Rightarrow>
          (case single of
             Some s \<Rightarrow> Inr (Some (OGRLineString s))
           | None \<Rightarrow> Inr (map_option OGRMultiLineString multi)))"

subsection \<open>Polygons\<close>

text \<open>
  \<open>OGRLinearRing::isClockwise\<close> belongs to the host library, so the orientation test is
  a parameter \<open>isClockwise\<close> of the model. \<open>close_polygon\<close> is the block guarded by
  \<open>if (ls->isClockwise())\<close>; \<open>add_ring\<close> is
  \<open>if (!single) { single.reset(new OGRPolygon()); } single->addRingDirectly(ls.release());\<close>.
\<close>

definition close_polygon ::
  "bool \<Rightarrow> coord list list option \<Rightarrow> coord list list list option
     \<Rightarrow> coord list list option \<times> coord list list list option" where
  "close_polygon clockwise single multi =
     (if clockwise then
        (case single of
           Some p \<Rightarrow> (None, Some ((case multi of None \<Rightarrow> [] | Some m \<Rightarrow> m) @ [p]))
         | None \<Rightarrow> (single, multi))
      else (single, multi))"

definition add_ring :: "coord list \<Rightarrow> coord list list option \<Rightarrow> coord list list option" where
  "add_ring ls single = Some ((case single of None \<Rightarrow> [] | Some p \<Rightarrow> p) @ [ls])"

function polygons_loop ::
  "(coord list \<Rightarrow> bool) \<Rightarrow> GeometryReader \<Rightarrow> Cursor
     \<Rightarrow> coord list list option \<Rightarrow> coord list list list option
     \<Rightarrow> error + (coord list list option \<times> coord list list list option)" where
  "polygons_loop isClockwise gr cur single multi =
     (if \<not> GeometryReader_bool gr then Inr (single, multi)
      else
        (case singleLineString gr cur True of
           Inl e \<Rightarrow> Inl e
         | Inr (ls, cur', gr') \<Rightarrow>
             polygons_loop isClockwise gr' cur'
               (add_ring ls (fst (close_polygon (isClockwise ls) single multi)))
               (snd (close_polygon (isClockwise ls) single multi))))"
  by pat_completeness auto
termination
proof -
  have loop: "length (gr_pos g') \<le> length (gr_pos g)"
    if "lineTo_loop n g c l = Inr (l', c', g')" for n g c l l' c' g'
    using that
  proof (induction n arbitrary: g c l)
    case 0
    then show ?case by simp
  next
    case (Suc n)
    from Suc.prems obtain c1 g1 where
      s: "GeometryReader_shift g c = Inr (c1, g1)" and
      r: "lineTo_loop n g1 c1 (l @ [coord_at g1 c1]) = Inr (l', c', g')"
      by (auto split: sum.splits)
    from s have "length (gr_pos g1) \<le> length (gr_pos g)"
      by (auto simp: GeometryReader_shift_def split: list.splits)
    with Suc.IH [OF r] show ?case by simp
  qed
  have single: "length (gr_pos g') < length (gr_pos g)"
    if "singleLineString g c b = Inr (l', c', g')" for g c b l' c' g'
    using that
    by (auto simp: singleLineString_def GeometryReader_command_def GeometryReader_shift_def
          Let_def split: list.splits sum.splits if_splits dest!: loop)
  show ?thesis
    by (relation "measure (\<lambda>(cw, gr, cur, single, multi). length (gr_pos gr))")
       (auto dest: single)
qed

text \<open>The statements of \<open>polygons\<close> after its loop.\<close>

definition polygons_finish ::
  "coord list list option \<Rightarrow> coord list list list option \<Rightarrow> OGRGeometry option" where
  "polygons_finish single multi =
     (case (multi, single) of
        (Some m, Some s) \<Rightarrow> Some (OGRMultiPolygon (m @ [s]))
      | (_, Some s) \<Rightarrow> Some (OGRPolygon s)
      | (_, None) \<Rightarrow> map_option OGRMultiPolygon multi)"

definition polygons :: "(coord list \<Rightarrow> bool) \<Rightarrow> GeometryReader \<Rightarrow> error + OGRGeometry option" where
  "polygons isClockwise gr =
     (case polygons_loop isClockwise gr Cursor_new None None of
        Inl e \<Rightarrow> Inl e
      | Inr (single, multi) \<Rightarrow> Inr (polygons_finish single multi))"

subsection \<open>Features and layers\<close>

text \<open>
  The generated protobuf classes: \<open>vector_tile::Tile_GeomType\<close> has the four values
  below; a feature exposes \<open>type()\<close>, \<open>has_id()\<close> with \<open>id()\<close>, and \<open>geometry()\<close>;
  a layer exposes \<open>name()\<close>, \<open>extent()\<close> and \<open>features()\<close>.
\<close>

datatype Tile_GeomType = UNKNOWN | POINT | LINESTRING | POLYGON

record Tile_Feature =
  feature_type :: Tile_GeomType
  feature_id :: "64 word option"
  feature_geometry :: MvtGeometry

record Tile_Layer =
  layer_name :: string
  layer_extent :: "32 word"
  layer_features :: "Tile_Feature list"

definition generateGeometry ::
  "(coord list \<Rightarrow> bool) \<Rightarrow> Tile_Feature \<Rightarrow> Trafo \<Rightarrow> error + OGRGeometry option" where
  "generateGeometry isClockwise feature t =
     (let gr = GeometryReader_new t (feature_geometry feature) in
      case feature_type feature of
        POINT \<Rightarrow> points gr
      | LINESTRING \<Rightarrow> lineStrings gr
      | POLYGON \<Rightarrow> polygons isClockwise gr
      | UNKNOWN \<Rightarrow> Inr None)"

datatype OGRwkbGeometryType = wkbUnknown | wkbPoint | wkbLineString | wkbPolygon

text \<open>The function \<open>type\<close> of the anonymous namespace, from tile types to OGR types.\<close>

definition type :: "Tile_GeomType \<Rightarrow> OGRwkbGeometryType" where
  "type t =
     (case t of
        POINT \<Rightarrow> wkbPoint
      | LINESTRING \<Rightarrow> wkbLineString
      | POLYGON \<Rightarrow> wkbPolygon
      | UNKNOWN \<Rightarrow> wkbUnknown)"

text \<open>
  The \<open>OGRFeature\<close> a call hands to the host: the geometry type of its definition, the
  feature id when \<open>SetFID\<close> was called, the geometry passed to
  \<open>SetGeometryDirectly\<close> (possibly null) and the spatial reference assigned to that
  geometry. The driver sets nothing else.
\<close>

record OGRFeature =
  feat_geom_type :: OGRwkbGeometryType
  feat_fid :: "64 word option"
  feat_geometry :: "OGRGeometry option"
  feat_geometry_srs :: "string option"

text \<open>
  The dataset members a layer reads, and \<open>MvtDataset::Layer\<close>: the tile layer
  \<open>layer_\<close>, the unread features from \<open>ifeatures_\<close> to \<open>efeatures_\<close>, the spatial
  reference \<open>srs_\<close> (null when the dataset has none) and \<open>trafo_\<close>.
\<close>

record MvtDataset =
  ds_srs :: "string option"
  ds_extents :: "Extents2 option"

record Layer =
  layer :: Tile_Layer
  ifeatures :: "Tile_Feature list"
  srs :: "string option"
  trafo :: Trafo

definition Layer_new :: "MvtDataset \<Rightarrow> Tile_Layer \<Rightarrow> Layer" where
  "Layer_new ds l =
     \<lparr>layer = l,
      ifeatures = layer_features l,
      srs = ds_srs ds,
      trafo = Trafo_new (real (unat (layer_extent l))) (ds_extents ds)\<rparr>"

definition GetFeatureCount :: "Layer \<Rightarrow> int \<Rightarrow> int" where
  "GetFeatureCount L force = int (length (layer_features (layer L)))"

definition ResetReading :: "Layer \<Rightarrow> Layer" where
  "ResetReading L = L\<lparr>ifeatures := layer_features (layer L)\<rparr>"

text \<open>The loop that opens \<open>GetNextFeature\<close>, on the unread features.\<close>

fun skip_unknown :: "Tile_Feature list \<Rightarrow> Tile_Feature list" where
  "skip_unknown [] = []"
| "skip_unknown (f # fs) = (if feature_type f = UNKNOWN then skip_unknown fs else f # fs)"

text \<open>
  \<open>GetNextFeature\<close> returns the feature pointer (null is \<open>None\<close>), the errors it
  reported through \<open>CPLError\<close> and the layer as it leaves it. The \<open>catch\<close> clause
  returns before \<open>++ifeatures_\<close>. When the builder returns a null geometry and
  \<open>srs_\<close> is set, \<open>geometry->assignSpatialReference(...)\<close> goes through a null
  \<open>std::unique_ptr\<close>: that is no C++ exception, and the model gives it its own
  outcome.
\<close>

datatype fault = NullDereference

definition GetNextFeature ::
  "(coord list \<Rightarrow> bool) \<Rightarrow> Layer \<Rightarrow> fault + (OGRFeature option \<times> error list \<times> Layer)" where
  "GetNextFeature isClockwise L =
     (let L1 = L\<lparr>ifeatures := skip_unknown (ifeatures L)\<rparr> in
      case ifeatures L1 of
        [] \<Rightarrow> Inr (None, [], L1)
      | feature # rest \<Rightarrow>
          (case generateGeometry isClockwise feature (trafo L1) of
             Inl e \<Rightarrow> Inr (None, [e], L1)
           | Inr geometry \<Rightarrow>
               if srs L1 \<noteq> None \<and> geometry = None then Inl NullDereference
               else
                 Inr (Some \<lparr>feat_geom_type = type (feature_type feature),
                            feat_fid = feature_id feature,
                            feat_geometry = geometry,
                            feat_geometry_srs = (if geometry = None then None else srs L1)\<rparr>,
                      [], L1\<lparr>ifeatures := rest\<rparr>)))"

section \<open>Blending driver (blender.cpp)\<close>

subsection \<open>One pixel of \<open>BlendingDataset::RasterBand::IReadBlock\<close>\<close>


datatype CPLErr = CE_None | CE_Debug | CE_Warning | CE_Failure | CE_Fatal





datatype GDALDataType =
    GDT_Unknown | GDT_Byte | GDT_UInt16 | GDT_Int16 | GDT_UInt32 | GDT_Int32
  | GDT_Float32 | GDT_Float64 | GDT_CInt16 | GDT_CInt32 | GDT_CFloat32 | GDT_CFloat64






section \<open>Vocabulary of the statements\<close>

text \<open>
  The definitions of this section are not code of the driver: they say what the
  statements below say about it.

  \<open>params ds\<close> is the layout of the delta pairs \<open>ds\<close> in a command stream, each pair
  as its x delta followed by its y delta.
\<close>

fun params :: "(32 word \<times> 32 word) list \<Rightarrow> MvtGeometry" where
  "params [] = []"
| "params ((dx, dy) # ds) = dx # dy # params ds"

text \<open>
  \<open>running_sums c ds\<close> lists, for each pair of \<open>ds\<close> in turn, the position reached
  from the cursor \<open>c\<close> by the deltas up to and including that pair. The sums are those of
  the cursor's \<open>std::uint32_t\<close> members, hence modulo \<open>2 ^ 32\<close>. \<open>moved c ds\<close> is the
  cursor after all of \<open>ds\<close>.
\<close>

definition running_sums :: "Cursor \<Rightarrow> (32 word \<times> 32 word) list \<Rightarrow> coord list" where
  "running_sums c ds =
     map (\<lambda>i. (real (unat (cur_x c + sum_list (map fst (take (Suc i) ds)))),
               real (unat (cur_y c + sum_list (map snd (take (Suc i) ds))))))
       [0..<length ds]"

definition moved :: "Cursor \<Rightarrow> (32 word \<times> 32 word) list \<Rightarrow> Cursor" where
  "moved c ds =
     c\<lparr>cur_x := cur_x c + sum_list (map fst ds), cur_y := cur_y c + sum_list (map snd ds)\<rparr>"

text \<open>
  \<open>decode_until_exhausted closed_ring gr cur\<close> is the sequence of line strings
  (\<open>closed_ring = False\<close>) or closed rings (\<open>closed_ring = True\<close>) that repeated calls of
  \<open>singleLineString\<close> read from the stream until it is exhausted, in decode order; it is
  the first error when one of the calls fails.
\<close>

function decode_until_exhausted ::
  "bool \<Rightarrow> GeometryReader \<Rightarrow> Cursor \<Rightarrow> error + coord list list" where
  "decode_until_exhausted closed_ring gr cur =
     (if \<not> GeometryReader_bool gr then Inr []
      else
        (case singleLineString gr cur closed_ring of
           Inl e \<Rightarrow> Inl e
         | Inr (ls, cur', gr') \<Rightarrow>
             (case decode_until_exhausted closed_ring gr' cur' of
                Inl e \<Rightarrow> Inl e
              | Inr lss \<Rightarrow> Inr (ls # lss))))"
  by pat_completeness auto
termination
proof -
  have loop: "length (gr_pos g') \<le> length (gr_pos g)"
    if "lineTo_loop n g c l = Inr (l', c', g')" for n g c l l' c' g'
    using that
  proof (induction n arbitrary: g c l)
    case 0
    then show ?case by simp
  next
    case (Suc n)
    from Suc.prems obtain c1 g1 where
      s: "GeometryReader_shift g c = Inr (c1, g1)" and
      r: "lineTo_loop n g1 c1 (l @ [coord_at g1 c1]) = Inr (l', c', g')"
      by (auto split: sum.splits)
    from s have "length (gr_pos g1) \<le> length (gr_pos g)"
      by (auto simp: GeometryReader_shift_def split: list.splits)
    with Suc.IH [OF r] show ?case by simp
  qed
  have single: "length (gr_pos g') < length (gr_pos g)"
    if "singleLineString g c b = Inr (l', c', g')" for g c b l' c' g'
    using that
    by (auto simp: singleLineString_def GeometryReader_command_def GeometryReader_shift_def
          Let_def split: list.splits sum.splits if_splits dest!: loop)
  show ?thesis
    by (relation "measure (\<lambda>(b, gr, cur). length (gr_pos gr))")
       (auto dest: single)
qed

text \<open>
  The grouping of rings into polygons, in the words of the specification. The state is
  the polygon being accumulated, if any, and the MultiPolygon, if one was started. A
  clockwise ring that finds a polygon open pushes that polygon into the MultiPolygon,
  created on first need, and starts a new polygon; any other ring is appended to the
  open polygon, which is opened if there is none. At the end a started MultiPolygon
  receives the open polygon and is returned; otherwise the single polygon is.
\<close>

fun group_rings ::
  "(coord list \<Rightarrow> bool) \<Rightarrow> coord list list
     \<Rightarrow> coord list list option \<Rightarrow> coord list list list option \<Rightarrow> OGRGeometry option" where
  "group_rings isClockwise [] None None = None"
| "group_rings isClockwise [] (Some p) None = Some (OGRPolygon p)"
| "group_rings isClockwise [] None (Some m) = Some (OGRMultiPolygon m)"
| "group_rings isClockwise [] (Some p) (Some m) = Some (OGRMultiPolygon (m @ [p]))"
| "group_rings isClockwise (r # rs) None multi = group_rings isClockwise rs (Some [r]) multi"
| "group_rings isClockwise (r # rs) (Some p) multi =
     (if isClockwise r then
        group_rings isClockwise rs (Some [r])
          (Some ((case multi of None \<Rightarrow> [] | Some m \<Rightarrow> m) @ [p]))
      else group_rings isClockwise rs (Some (p @ [r])) multi)"

text \<open>
  An orientation test by signed area (the shoelace sum over consecutive points, negative
  for a ring that runs clockwise when the y axis points up). It stands for
  \<open>isClockwise\<close> in the examples.
\<close>

fun cross_sum :: "coord list \<Rightarrow> real" where
  "cross_sum ((x1, y1) # (x2, y2) # ps) = (x1 * y2 - x2 * y1) + cross_sum ((x2, y2) # ps)"
| "cross_sum [p] = 0"
| "cross_sum [] = 0"

definition shoelace_clockwise :: "coord list \<Rightarrow> bool" where
  "shoelace_clockwise ring = (cross_sum ring < 0)"

text \<open>
  The host's iteration over a layer: it calls \<open>GetNextFeature\<close> until the call returns
  null, and collects the features returned and the errors reported on the way.
\<close>

function pull_all ::
  "(coord list \<Rightarrow> bool) \<Rightarrow> Layer \<Rightarrow> fault + (OGRFeature list \<times> error list \<times> Layer)" where
  "pull_all isClockwise L =
     (case GetNextFeature isClockwise L of
        Inl x \<Rightarrow> Inl x
      | Inr (None, errs, L') \<Rightarrow> Inr ([], errs, L')
      | Inr (Some f, errs, L') \<Rightarrow>
          (case pull_all isClockwise L' of
             Inl x \<Rightarrow> Inl x
           | Inr (fs, errs', L'') \<Rightarrow> Inr (f # fs, errs @ errs', L'')))"
  by pat_completeness auto
termination
proof -
  have skip: "length (skip_unknown fs) \<le> length fs" for fs
    by (induction fs) auto
  have "length (ifeatures L') < length (ifeatures L)"
    if "GetNextFeature cw L = Inr (Some f, errs, L')" for cw L f errs L'
  proof -
    from that obtain g rest where
      "skip_unknown (ifeatures L) = g # rest" and "ifeatures L' = rest"
      by (auto simp: GetNextFeature_def Let_def split: list.splits sum.splits if_splits)
    with skip [of "ifeatures L"] show ?thesis by simp
  qed
  then show ?thesis
    by (relation "measure (\<lambda>(cw, L). length (ifeatures L))") auto
qed

text \<open>
  \<open>materialized isClockwise L f\<close> is the \<open>OGRFeature\<close> that \<open>GetNextFeature\<close> builds
  for the feature \<open>f\<close> of the layer when the geometry of \<open>f\<close> decodes without error
  and, if the layer has a spatial reference, is not null; it is \<open>None\<close> otherwise.
  \<open>known fs\<close> are the features of \<open>fs\<close> whose type is not \<open>UNKNOWN\<close>, in their order.
\<close>

definition materialized ::
  "(coord list \<Rightarrow> bool) \<Rightarrow> Layer \<Rightarrow> Tile_Feature \<Rightarrow> OGRFeature option" where
  "materialized isClockwise L f =
     (case generateGeometry isClockwise f (trafo L) of
        Inl e \<Rightarrow> None
      | Inr g \<Rightarrow>
          if srs L \<noteq> None \<and> g = None then None
          else
            Some \<lparr>feat_geom_type = type (feature_type f), feat_fid = feature_id f,
                  feat_geometry = g,
                  feat_geometry_srs = (if g = None then None else srs L)\<rparr>)"

fun known :: "Tile_Feature list \<Rightarrow> Tile_Feature list" where
  "known [] = []"
| "known (f # fs) = (if feature_type f = UNKNOWN then known fs else f # known fs)"

text \<open>
  The polygons of a geometry: the one polygon of an \<open>OGRPolygon\<close>, the members of an
  \<open>OGRMultiPolygon\<close>, each as its list of rings.
\<close>

fun polygons_of :: "OGRGeometry option \<Rightarrow> coord list list list" where
  "polygons_of (Some (OGRPolygon p)) = [p]"
| "polygons_of (Some (OGRMultiPolygon ps)) = ps"
| "polygons_of g = []"










section \<open>Verified properties\<close>

subsection \<open>Auxiliary facts\<close>

declare lineStrings_loop.simps [simp del] polygons_loop.simps [simp del]
  decode_until_exhausted.simps [simp del]

lemmas decode_eval =
  decode_until_exhausted.simps GeometryReader_bool_def singleLineString_def
  GeometryReader_command_def GeometryReader_shift_def Command_new_def checkSingle_def
  checkNonzero_def moveTo_def lineTo_def closePath_def coord_at_def Trafo_x_def Trafo_y_def
  Cursor_new_def Let_def

lemma running_sums_Nil: "running_sums c [] = []"
  by (simp add: running_sums_def)

lemma running_sums_Cons:
  "running_sums c ((dx, dy) # ds) =
     (real (unat (cur_x c + dx)), real (unat (cur_y c + dy)))
       # running_sums (c\<lparr>cur_x := cur_x c + dx, cur_y := cur_y c + dy\<rparr>) ds"
proof -
  have "[0..<length ((dx, dy) # ds)] = 0 # map Suc [0..<length ds]"
    by (simp add: upt_conv_Cons map_Suc_upt del: upt_Suc)
  then show ?thesis
    by (simp add: running_sums_def add.assoc comp_def del: upt_Suc)
qed

lemma length_running_sums: "length (running_sums c ds) = length ds"
  by (simp add: running_sums_def)

lemma moved_Nil: "moved c [] = c"
  by (simp add: moved_def)

lemma moved_Cons:
  "moved c ((dx, dy) # ds) = moved (c\<lparr>cur_x := cur_x c + dx, cur_y := cur_y c + dy\<rparr>) ds"
  by (simp add: moved_def add.assoc)

lemma shift_params:
  "gr_pos gr = params ((dx, dy) # ds) @ rest \<Longrightarrow>
   GeometryReader_shift gr cur =
     Inr (cur\<lparr>cur_x := cur_x cur + dx, cur_y := cur_y cur + dy\<rparr>, gr\<lparr>gr_pos := params ds @ rest\<rparr>)"
  by (simp add: GeometryReader_shift_def)

lemma coord_at_eq: "coord_at gr cur = (real (unat (cur_x cur)), real (unat (cur_y cur)))"
  by (simp add: coord_at_def Trafo_x_def Trafo_y_def)

lemma points_loop_params:
  "gr_pos gr = params ds @ rest \<Longrightarrow>
   points_loop (length ds) gr cur g =
     Inr (g @ map (\<lambda>(x, y). OGRPoint x y) (running_sums cur ds))"
proof (induction ds arbitrary: gr cur g)
  case Nil
  then show ?case by (simp add: running_sums_Nil)
next
  case (Cons d ds)
  obtain dx dy where d: "d = (dx, dy)" by (cases d)
  show ?case
    using Cons.prems
    by (simp add: d shift_params [where ds = ds and rest = rest] Cons.IH
          running_sums_Cons coord_at_eq)
qed

lemma lineTo_loop_params:
  "gr_pos gr = params ds @ rest \<Longrightarrow>
   lineTo_loop (length ds) gr cur ls =
     Inr (ls @ running_sums cur ds, moved cur ds, gr\<lparr>gr_pos := rest\<rparr>)"
proof (induction ds arbitrary: gr cur ls)
  case Nil
  then show ?case by (simp add: running_sums_Nil moved_Nil)
next
  case (Cons d ds)
  obtain dx dy where d: "d = (dx, dy)" by (cases d)
  show ?case
    using Cons.prems
    by (simp add: d shift_params [where ds = ds and rest = rest] Cons.IH
          running_sums_Cons moved_Cons coord_at_eq)
qed

lemma command_Cons:
  "gr_pos gr = raw # rest \<Longrightarrow>
   GeometryReader_command gr t =
     (if raw AND 7 = t then Inr (Command_new raw, gr\<lparr>gr_pos := rest\<rparr>)
      else Inl UnexpectedOpcode)"
  by (simp add: GeometryReader_command_def Command_new_def)

lemma command_Nil: "gr_pos gr = [] \<Longrightarrow> GeometryReader_command gr t = Inl StreamUnderrun"
  by (simp add: GeometryReader_command_def)

lemma cmd_count_new: "cmd_count (Command_new raw) = drop_bit 3 raw"
  by (simp add: Command_new_def)

text \<open>A well-formed line string or ring, up to the end of its LineTo parameters.\<close>

lemma singleLineString_open:
  assumes "gr_pos gr = mv # dx # dy # lt # params ds @ rest"
    and "mv AND 7 = 1" and "drop_bit 3 mv = 1"
    and "lt AND 7 = 2" and "unat (drop_bit 3 lt) = length ds" and "ds \<noteq> []"
  shows "singleLineString gr cur False =
           Inr ((real (unat (cur_x cur + dx)), real (unat (cur_y cur + dy)))
                  # running_sums (cur\<lparr>cur_x := cur_x cur + dx, cur_y := cur_y cur + dy\<rparr>) ds,
                moved (cur\<lparr>cur_x := cur_x cur + dx, cur_y := cur_y cur + dy\<rparr>) ds,
                gr\<lparr>gr_pos := rest\<rparr>)"
proof -
  have nz: "drop_bit 3 lt \<noteq> 0"
    using assms(5,6) by (auto simp: unat_eq_0 [symmetric])
  show ?thesis
    using assms nz
    by (simp add: singleLineString_def command_Cons moveTo_def lineTo_def checkSingle_def
          checkNonzero_def cmd_count_new GeometryReader_shift_def
          lineTo_loop_params [where rest = rest] coord_at_eq)
qed

lemma singleLineString_closed:
  assumes "gr_pos gr = mv # dx # dy # lt # params ds @ cp # rest"
    and "mv AND 7 = 1" and "drop_bit 3 mv = 1"
    and "lt AND 7 = 2" and "unat (drop_bit 3 lt) = length ds" and "ds \<noteq> []"
    and "cp AND 7 = 7"
  shows "singleLineString gr cur True =
           (if drop_bit 3 cp = 0 then Inl InvalidCount
            else
              Inr ((real (unat (cur_x cur + dx)), real (unat (cur_y cur + dy)))
                     # running_sums (cur\<lparr>cur_x := cur_x cur + dx, cur_y := cur_y cur + dy\<rparr>) ds
                     @ [(real (unat (cur_x cur + dx)), real (unat (cur_y cur + dy)))],
                   moved (cur\<lparr>cur_x := cur_x cur + dx, cur_y := cur_y cur + dy\<rparr>) ds,
                   gr\<lparr>gr_pos := rest\<rparr>))"
proof -
  have nz: "drop_bit 3 lt \<noteq> 0"
    using assms(5,6) by (auto simp: unat_eq_0 [symmetric])
  show ?thesis
    using assms nz
    by (simp add: singleLineString_def command_Cons moveTo_def lineTo_def closePath_def
          checkSingle_def checkNonzero_def cmd_count_new GeometryReader_shift_def
          lineTo_loop_params [where rest = "cp # rest"] coord_at_eq)
qed

lemma sums_from_origin:
  "map (\<lambda>(x, y). OGRPoint x y) (running_sums Cursor_new ds) =
     map (\<lambda>i. OGRPoint (real (unat (sum_list (map fst (take (Suc i) ds)))))
                       (real (unat (sum_list (map snd (take (Suc i) ds))))))
       [0..<length ds]"
  by (simp add: running_sums_def Cursor_new_def comp_def)

lemma singleLineString_badMoveTo:
  "mv AND 7 = 1 \<Longrightarrow> drop_bit 3 mv \<noteq> 1 \<Longrightarrow>
   singleLineString (gr\<lparr>gr_pos := mv # rest\<rparr>) cur b = Inl InvalidCount"
  by (simp add: singleLineString_def command_Cons moveTo_def checkSingle_def cmd_count_new)

lemma singleLineString_badLineTo:
  "mv AND 7 = 1 \<Longrightarrow> drop_bit 3 mv = 1 \<Longrightarrow> lt AND 7 = 2 \<Longrightarrow> drop_bit 3 lt = 0 \<Longrightarrow>
   singleLineString (gr\<lparr>gr_pos := mv # dx # dy # lt # rest\<rparr>) cur b = Inl InvalidCount"
  by (simp add: singleLineString_def command_Cons moveTo_def lineTo_def checkSingle_def
        checkNonzero_def cmd_count_new GeometryReader_shift_def)

lemma lineStrings_loop_decode:
  "lineStrings_loop gr cur single multi =
     (case decode_until_exhausted False gr cur of
        Inl e \<Rightarrow> Inl e
      | Inr lss \<Rightarrow>
          Inr (if lss = [] then (single, multi)
               else
                 (case single of
                    Some s \<Rightarrow> (None, Some (s # lss))
                  | None \<Rightarrow>
                      (case multi of
                         Some m \<Rightarrow> (None, Some (m @ lss))
                       | None \<Rightarrow> if length lss = 1 then (Some (hd lss), None) else (None, Some lss)))))"
proof (induction gr cur single multi rule: lineStrings_loop.induct)
  case (1 gr cur single multi)
  show ?case
  proof (cases "GeometryReader_bool gr")
    case False
    then show ?thesis
      by (simp add: lineStrings_loop.simps [of gr] decode_until_exhausted.simps [of _ gr])
  next
    case True
    show ?thesis
    proof (cases "singleLineString gr cur False")
      case (Inl e)
      then show ?thesis
        using True
        by (simp add: lineStrings_loop.simps [of gr] decode_until_exhausted.simps [of _ gr])
    next
      case (Inr r)
      obtain ls cur' gr' where r: "r = (ls, cur', gr')" by (cases r)
      have dec: "decode_until_exhausted False gr cur =
                   (case decode_until_exhausted False gr' cur' of
                      Inl e \<Rightarrow> Inl e
                    | Inr lss \<Rightarrow> Inr (ls # lss))"
        using True Inr r by (simp add: decode_until_exhausted.simps [of _ gr])
      show ?thesis
      proof (cases "snd (start_multi single multi)")
        case None
        then have sm: "single = None" "multi = None"
          by (auto simp: start_multi_def split: option.splits)
        have step: "lineStrings_loop gr cur single multi = lineStrings_loop gr' cur' (Some ls) None"
          using True Inr r None by (simp add: lineStrings_loop.simps [of gr])
        have ih: "lineStrings_loop gr' cur' (Some ls) None =
                    (case decode_until_exhausted False gr' cur' of
                       Inl e \<Rightarrow> Inl e
                     | Inr lss \<Rightarrow> Inr (if lss = [] then (Some ls, None) else (None, Some (ls # lss))))"
          using "1.IH"(1) [OF _ Inr [unfolded r] refl refl None] True
          by (simp split: sum.splits)
        show ?thesis
          unfolding step dec ih using sm by (auto split: sum.splits)
      next
        case (Some m)
        then have sm: "(\<exists>s. single = Some s \<and> m = [s]) \<or> (single = None \<and> multi = Some m)"
          by (auto simp: start_multi_def split: option.splits)
        have step: "lineStrings_loop gr cur single multi =
                      lineStrings_loop gr' cur' None (Some (m @ [ls]))"
          using True Inr r Some by (simp add: lineStrings_loop.simps [of gr])
        have ih: "lineStrings_loop gr' cur' None (Some (m @ [ls])) =
                    (case decode_until_exhausted False gr' cur' of
                       Inl e \<Rightarrow> Inl e
                     | Inr lss \<Rightarrow> Inr (None, Some (m @ ls # lss)))"
          using "1.IH"(2) [OF _ Inr [unfolded r] refl refl Some] True
          by (simp split: sum.splits)
        show ?thesis
          unfolding step dec ih using sm by (auto split: sum.splits)
      qed
    qed
  qed
qed

lemma polygons_loop_decode:
  "(case polygons_loop cw gr cur single multi of
      Inl e \<Rightarrow> Inl e
    | Inr (s, m) \<Rightarrow> Inr (polygons_finish s m)) =
   (case decode_until_exhausted True gr cur of
      Inl e \<Rightarrow> Inl e
    | Inr rings \<Rightarrow> Inr (group_rings cw rings single multi))"
proof (induction cw gr cur single multi rule: polygons_loop.induct)
  case (1 cw gr cur single multi)
  show ?case
  proof (cases "GeometryReader_bool gr")
    case False
    have "polygons_finish single multi = group_rings cw [] single multi"
      by (cases single; cases multi) (simp_all add: polygons_finish_def)
    with False show ?thesis
      by (simp add: polygons_loop.simps [of _ gr] decode_until_exhausted.simps [of _ gr])
  next
    case True
    show ?thesis
    proof (cases "singleLineString gr cur True")
      case (Inl e)
      then show ?thesis
        using True
        by (simp add: polygons_loop.simps [of _ gr] decode_until_exhausted.simps [of _ gr])
    next
      case (Inr r)
      obtain ls cur' gr' where r: "r = (ls, cur', gr')" by (cases r)
      have dec: "decode_until_exhausted True gr cur =
                   (case decode_until_exhausted True gr' cur' of
                      Inl e \<Rightarrow> Inl e
                    | Inr lss \<Rightarrow> Inr (ls # lss))"
        using True Inr r by (simp add: decode_until_exhausted.simps [of _ gr])
      have step: "polygons_loop cw gr cur single multi =
                    polygons_loop cw gr' cur'
                      (add_ring ls (fst (close_polygon (cw ls) single multi)))
                      (snd (close_polygon (cw ls) single multi))"
        using True Inr r by (simp add: polygons_loop.simps [of _ gr])
      have grp: "group_rings cw (ls # lss) single multi =
                   group_rings cw lss
                      (add_ring ls (fst (close_polygon (cw ls) single multi)))
                      (snd (close_polygon (cw ls) single multi))" for lss
        by (cases single) (simp_all add: add_ring_def close_polygon_def)
      have ih: "(case polygons_loop cw gr' cur'
                      (add_ring ls (fst (close_polygon (cw ls) single multi)))
                      (snd (close_polygon (cw ls) single multi)) of
                   Inl e \<Rightarrow> Inl e
                 | Inr (s, m) \<Rightarrow> Inr (polygons_finish s m)) =
                (case decode_until_exhausted True gr' cur' of
                   Inl e \<Rightarrow> Inl e
                 | Inr rings \<Rightarrow> Inr (group_rings cw (ls # rings) single multi))"
        using "1.IH" [OF _ Inr [unfolded r] refl refl] True by (simp add: grp split: sum.splits)
      show ?thesis
        unfolding step dec ih by (simp split: sum.splits)
    qed
  qed
qed


lemma lineTo_loop_numeral:
  "lineTo_loop (numeral k) gr cur ls =
     (case GeometryReader_shift gr cur of
        Inl e \<Rightarrow> Inl e
      | Inr (cur', gr') \<Rightarrow> lineTo_loop (pred_numeral k) gr' cur' (ls @ [coord_at gr' cur']))"
  by (simp add: numeral_eq_Suc)

lemma points_loop_numeral:
  "points_loop (numeral k) gr cur g =
     (case GeometryReader_shift gr cur of
        Inl e \<Rightarrow> Inl e
      | Inr (cur', gr') \<Rightarrow>
          points_loop (pred_numeral k) gr' cur'
            (g @ [OGRPoint (fst (coord_at gr' cur')) (snd (coord_at gr' cur'))]))"
  by (simp add: numeral_eq_Suc)

lemma polygons_of_end:
  "polygons_of (group_rings cw [] (Some p) multi) = (case multi of None \<Rightarrow> [] | Some m \<Rightarrow> m) @ [p]"
  by (cases multi) simp_all

lemma group_rings_polygons:
  "concat (polygons_of (group_rings cw rs (Some p) multi)) =
     concat (case multi of None \<Rightarrow> [] | Some m \<Rightarrow> m) @ p @ rs"
proof (induction rs arbitrary: p multi)
  case Nil
  show ?case by (simp add: polygons_of_end)
next
  case (Cons r rs)
  show ?case by (simp add: Cons.IH)
qed

lemma group_rings_holes:
  assumes "p \<noteq> []" and "\<forall>r \<in> set (tl p). \<not> cw r"
    and "\<forall>q \<in> set (case multi of None \<Rightarrow> [] | Some m \<Rightarrow> m). q \<noteq> [] \<and> (\<forall>r \<in> set (tl q). \<not> cw r)"
    and "q \<in> set (polygons_of (group_rings cw rs (Some p) multi))"
  shows "q \<noteq> [] \<and> (\<forall>r \<in> set (tl q). \<not> cw r)"
  using assms
proof (induction rs arbitrary: p multi)
  case Nil
  then show ?case by (auto simp: polygons_of_end)
next
  case (Cons r rs)
  show ?case
  proof (cases "cw r")
    case True
    with Cons.prems show ?thesis
      by (intro Cons.IH [of "[r]" "Some ((case multi of None \<Rightarrow> [] | Some m \<Rightarrow> m) @ [p])"]) auto
  next
    case False
    with Cons.prems show ?thesis
      by (intro Cons.IH [of "p @ [r]" multi]) auto
  qed
qed

lemma group_rings_exterior:
  assumes "p \<noteq> []"
    and "\<forall>q \<in> set (tl ((case multi of None \<Rightarrow> [] | Some m \<Rightarrow> m) @ [p])). cw (hd q)"
    and "q \<in> set (tl (polygons_of (group_rings cw rs (Some p) multi)))"
  shows "cw (hd q)"
  using assms
proof (induction rs arbitrary: p multi)
  case Nil
  then show ?case by (auto simp: polygons_of_end)
next
  case (Cons r rs)
  show ?case
  proof (cases "cw r")
    case True
    have "\<forall>q \<in> set (tl (((case multi of None \<Rightarrow> [] | Some m \<Rightarrow> m) @ [p]) @ [[r]])). cw (hd q)"
      using Cons.prems(2) True
      by (cases "case multi of None \<Rightarrow> [] | Some m \<Rightarrow> m") auto
    with True Cons.prems show ?thesis
      by (intro Cons.IH [of "[r]" "Some ((case multi of None \<Rightarrow> [] | Some m \<Rightarrow> m) @ [p])"]) auto
  next
    case False
    have "\<forall>q \<in> set (tl ((case multi of None \<Rightarrow> [] | Some m \<Rightarrow> m) @ [p @ [r]])). cw (hd q)"
      using Cons.prems(1,2)
      by (cases "case multi of None \<Rightarrow> [] | Some m \<Rightarrow> m") auto
    with False Cons.prems show ?thesis
      by (intro Cons.IH [of "p @ [r]" multi]) auto
  qed
qed

lemma group_rings_multi:
  "(\<exists>ps. group_rings cw rs (Some p) multi = Some (OGRMultiPolygon ps)) \<longleftrightarrow>
     multi \<noteq> None \<or> (\<exists>r \<in> set rs. cw r)"
proof (induction rs arbitrary: p multi)
  case Nil
  show ?case by (cases multi) simp_all
next
  case (Cons r rs)
  show ?case by (simp add: Cons.IH)
qed

lemma group_rings_single:
  "multi = None \<Longrightarrow> \<forall>r \<in> set rs. \<not> cw r \<Longrightarrow>
   group_rings cw rs (Some p) multi = Some (OGRPolygon (p @ rs))"
  by (induction rs arbitrary: p) simp_all

declare pull_all.simps [simp del]

lemma materialized_ifeatures: "materialized cw (L\<lparr>ifeatures := fs\<rparr>) f = materialized cw L f"
  by (simp add: materialized_def split: sum.splits)

lemma GetNextFeature_unknown:
  "feature_type f = UNKNOWN \<Longrightarrow>
   GetNextFeature cw (L\<lparr>ifeatures := f # fs\<rparr>) = GetNextFeature cw (L\<lparr>ifeatures := fs\<rparr>)"
  by (simp add: GetNextFeature_def)

lemma GetNextFeature_exhausted:
  "skip_unknown (ifeatures L) = [] \<Longrightarrow>
   GetNextFeature cw L = Inr (None, [], L\<lparr>ifeatures := []\<rparr>)"
  by (simp add: GetNextFeature_def)

lemma GetNextFeature_failure:
  "skip_unknown (ifeatures L) = f # rest \<Longrightarrow> generateGeometry cw f (trafo L) = Inl e \<Longrightarrow>
   GetNextFeature cw L = Inr (None, [e], L\<lparr>ifeatures := f # rest\<rparr>)"
  by (simp add: GetNextFeature_def)

lemma GetNextFeature_materialized:
  "skip_unknown (ifeatures L) = f # rest \<Longrightarrow> materialized cw L f = Some x \<Longrightarrow>
   GetNextFeature cw L = Inr (Some x, [], L\<lparr>ifeatures := rest\<rparr>)"
  by (auto simp: GetNextFeature_def materialized_def split: sum.splits if_splits)

lemma GetNextFeature_null_srs:
  "skip_unknown (ifeatures L) = f # rest \<Longrightarrow> generateGeometry cw f (trafo L) = Inr None \<Longrightarrow>
   srs L \<noteq> None \<Longrightarrow> GetNextFeature cw L = Inl NullDereference"
  by (simp add: GetNextFeature_def)

lemma skip_unknown_idem: "skip_unknown (skip_unknown fs) = skip_unknown fs"
  by (induction fs) auto

lemma pull_all_unknown:
  "feature_type f = UNKNOWN \<Longrightarrow>
   pull_all cw (L\<lparr>ifeatures := f # fs\<rparr>) = pull_all cw (L\<lparr>ifeatures := fs\<rparr>)"
  by (simp add: pull_all.simps [of _ "L\<lparr>ifeatures := f # fs\<rparr>"]
        pull_all.simps [of _ "L\<lparr>ifeatures := fs\<rparr>"] GetNextFeature_unknown)

lemma pull_all_materialized:
  "those (map (materialized cw L) (known fs)) = Some feats \<Longrightarrow>
   pull_all cw (L\<lparr>ifeatures := fs\<rparr>) = Inr (feats, [], L\<lparr>ifeatures := []\<rparr>)"
proof (induction fs arbitrary: feats)
  case Nil
  then show ?case
    by (simp add: pull_all.simps [of _ "L\<lparr>ifeatures := []\<rparr>"] GetNextFeature_exhausted)
next
  case (Cons f fs)
  show ?case
  proof (cases "feature_type f = UNKNOWN")
    case True
    with Cons show ?thesis
      by (simp add: pull_all_unknown)
  next
    case False
    with Cons.prems obtain x xs where
      x: "materialized cw L f = Some x" and
      xs: "those (map (materialized cw L) (known fs)) = Some xs" and
      feats: "feats = x # xs"
      by (auto split: option.splits)
    have "GetNextFeature cw (L\<lparr>ifeatures := f # fs\<rparr>) = Inr (Some x, [], L\<lparr>ifeatures := fs\<rparr>)"
      using GetNextFeature_materialized [of "L\<lparr>ifeatures := f # fs\<rparr>" f fs cw x] False x
      by (simp add: materialized_ifeatures)
    then show ?thesis
      using Cons.IH [OF xs] feats
      by (simp add: pull_all.simps [of _ "L\<lparr>ifeatures := f # fs\<rparr>"])
  qed
qed

lemma pull_all_failure:
  "skip_unknown (ifeatures L) = f # rest \<Longrightarrow> generateGeometry cw f (trafo L) = Inl e \<Longrightarrow>
   pull_all cw L = Inr ([], [e], L\<lparr>ifeatures := f # rest\<rparr>)"
  by (simp add: pull_all.simps [of _ L] GetNextFeature_failure)

lemmas layer_eval =
  GetNextFeature_def generateGeometry_def GeometryReader_new_def Layer_new_def ResetReading_def
  GetFeatureCount_def points_def lineStrings_def polygons_def polygons_finish_def
  lineStrings_loop.simps polygons_loop.simps GeometryReader_bool_def
  GeometryReader_command_def GeometryReader_shift_def Command_new_def checkNonzero_def
  checkSingle_def moveTo_def lineTo_def closePath_def coord_at_def Trafo_x_def Trafo_y_def
  Cursor_new_def type_def materialized_def Let_def

lemma those_length: "those xs = Some ys \<Longrightarrow> length ys = length xs"
  by (induction xs arbitrary: ys) (auto split: option.splits)

lemma empty_stream_geometry:
  "generateGeometry cw \<lparr>feature_type = LINESTRING, feature_id = i, feature_geometry = []\<rparr> t = Inr None
   \<and> generateGeometry cw \<lparr>feature_type = POLYGON, feature_id = i, feature_geometry = []\<rparr> t = Inr None
   \<and> generateGeometry cw \<lparr>feature_type = POINT, feature_id = i, feature_geometry = []\<rparr> t =
       Inl StreamUnderrun"
  by (simp add: layer_eval)

lemma empty_stream_without_srs:
  assumes "skip_unknown (ifeatures L) = f # rest"
    and "feature_type f = LINESTRING \<or> feature_type f = POLYGON"
    and "feature_geometry f = []"
    and "srs L = None"
  shows "GetNextFeature cw L =
           Inr (Some \<lparr>feat_geom_type = type (feature_type f), feat_fid = feature_id f,
                      feat_geometry = None, feat_geometry_srs = None\<rparr>,
                [], L\<lparr>ifeatures := rest\<rparr>)"
  using assms by (auto simp: layer_eval)



subsection \<open>Reading commands and shifts\<close>

text \<open>
  Claim C3. Reading one command takes a single unsigned integer and decodes the opcode as
  \<open>value & 0x7\<close> (the value modulo 8) and the count as \<open>value >> 3\<close> (the value
  divided by 8). Reading a command when no integer remains fails with
  \<open>StreamUnderrun\<close>; reading a command whose opcode differs from the expected one fails
  with \<open>UnexpectedOpcode\<close>; otherwise the command is returned and exactly one integer
  is consumed. Shifting the cursor consumes exactly two integers, the first added to
  the cursor's x and the second to its y, and fails with \<open>StreamUnderrun\<close> when no
  integer or only one integer remains.
\<close>

theorem reader_contract:
  "cmd_type (Command_new raw) = raw AND 7
   \<and> cmd_count (Command_new raw) = drop_bit 3 raw
   \<and> unat (cmd_type (Command_new raw)) = unat raw mod 8
   \<and> unat (cmd_count (Command_new raw)) = unat raw div 8
   \<and> GeometryReader_command (gr\<lparr>gr_pos := []\<rparr>) t = Inl StreamUnderrun
   \<and> GeometryReader_command (gr\<lparr>gr_pos := raw # rest\<rparr>) t =
       (if raw AND 7 = t then Inr (Command_new raw, gr\<lparr>gr_pos := rest\<rparr>)
        else Inl UnexpectedOpcode)
   \<and> GeometryReader_shift (gr\<lparr>gr_pos := dx # dy # rest\<rparr>) cur =
       Inr (cur\<lparr>cur_x := cur_x cur + dx, cur_y := cur_y cur + dy\<rparr>, gr\<lparr>gr_pos := rest\<rparr>)
   \<and> GeometryReader_shift (gr\<lparr>gr_pos := [dx]\<rparr>) cur = Inl StreamUnderrun
   \<and> GeometryReader_shift (gr\<lparr>gr_pos := []\<rparr>) cur = Inl StreamUnderrun"
proof -
  have "(7::32 word) = mask 3"
    by (simp add: mask_eq_exp_minus_1)
  then have "raw AND 7 = take_bit 3 raw"
    by (simp add: take_bit_eq_mask)
  then have "unat (raw AND 7) = take_bit 3 (unat raw)"
    by (simp only: unsigned_take_bit_eq)
  then have m: "unat (raw AND 7) = unat raw mod 8"
    by (simp add: take_bit_eq_mod)
  have d: "unat (drop_bit 3 raw) = unat raw div 8"
    by (simp add: drop_bit_nat_def unat_drop_bit_eq)
  show ?thesis
    using m d
    by (simp add: Command_new_def GeometryReader_command_def GeometryReader_shift_def)
qed

subsection \<open>The coordinate transformation is the identity\<close>

text \<open>
  Claim C8. For every configuration of the coordinate transformation, with or without
  a target extent, and for every grid value \<open>v\<close>, \<open>x(v)\<close> and \<open>y(v)\<close> are \<open>v\<close>
  itself (as a double). The constructor does compute a shift and a scale from the
  target extent, but the result of \<open>x\<close> and \<open>y\<close> is the same for any two
  transformations, whatever their shift and scale; so every coordinate of a geometry
  is the cursor's value.
\<close>

theorem Trafo_identity:
  "Trafo_x (Trafo_new extent None) v = real (unat v)
   \<and> Trafo_y (Trafo_new extent None) v = real (unat v)
   \<and> Trafo_x (Trafo_new extent (Some e)) v = real (unat v)
   \<and> Trafo_y (Trafo_new extent (Some e)) v = real (unat v)
   \<and> shift (Trafo_new extent (Some e)) = ul e
   \<and> scale (Trafo_new extent (Some e)) = (fst (size2 e) / extent, snd (size2 e) / (- extent))
   \<and> Trafo_x t v = Trafo_x t' v
   \<and> Trafo_y t v = Trafo_y t' v
   \<and> coord_at gr cur = (real (unat (cur_x cur)), real (unat (cur_y cur)))"
  by (simp add: Trafo_x_def Trafo_y_def Trafo_new_def coord_at_def)

subsection \<open>Points\<close>

text \<open>
  What \<open>points\<close> returns on a stream that starts with a MoveTo command of count \<open>N\<close>
  followed by \<open>N\<close> delta pairs, whatever comes after them: count 0 fails with
  \<open>InvalidCount\<close>; count 1 yields a single point at the sum of the deltas, starting from
  the cursor (0,0); count \<open>N > 1\<close> yields \<open>N\<close> points, the \<open>i\<close>-th at the sum of the
  first \<open>i\<close> delta pairs, in decode order. The sums are those of the cursor's 32-bit
  unsigned members. For \<open>N > 1\<close> the points are held by an \<open>OGRGeometryCollection\<close>.
\<close>

lemma points_cumulative:
  assumes "gr_pos gr = raw # params ds @ rest"
    and "raw AND 7 = 1"
    and "unat (drop_bit 3 raw) = length ds"
  shows "points gr =
           (if length ds = 0 then Inl InvalidCount
            else if length ds = 1 then
              Inr (Some (OGRPoint (real (unat (sum_list (map fst ds))))
                                  (real (unat (sum_list (map snd ds))))))
            else
              Inr (Some (OGRGeometryCollection
                (map (\<lambda>i. OGRPoint (real (unat (sum_list (map fst (take (Suc i) ds)))))
                                   (real (unat (sum_list (map snd (take (Suc i) ds))))))
                   [0..<length ds]))))"
proof -
  have cmd: "GeometryReader_command gr moveTo =
               Inr (Command_new raw, gr\<lparr>gr_pos := params ds @ rest\<rparr>)"
    using assms(1,2) by (simp add: command_Cons moveTo_def)
  have zero: "drop_bit 3 raw = 0 \<longleftrightarrow> length ds = 0"
    using assms(3) by (metis unat_eq_0)
  have one: "drop_bit 3 raw = 1 \<longleftrightarrow> length ds = 1"
    using assms(3) by (simp add: word_unat_eq_iff)
  show ?thesis
  proof (cases ds)
    case Nil
    then show ?thesis
      using zero by (simp add: points_def cmd checkNonzero_def cmd_count_new)
  next
    case (Cons d ds')
    obtain dx dy where d: "d = (dx, dy)" by (cases d)
    show ?thesis
    proof (cases ds')
      case Nil
      then show ?thesis
        using zero one Cons d
        by (simp add: points_def cmd checkNonzero_def cmd_count_new GeometryReader_shift_def
              coord_at_eq Cursor_new_def)
    next
      case (Cons d' ds'')
      have loop: "points_loop (unat (drop_bit 3 raw)) (gr\<lparr>gr_pos := params ds @ rest\<rparr>) Cursor_new [] =
                    Inr ([] @ map (\<lambda>(x, y). OGRPoint x y) (running_sums Cursor_new ds))"
        unfolding assms(3) by (rule points_loop_params) simp
      show ?thesis
        using zero one Cons \<open>ds = d # ds'\<close> loop
        by (simp add: points_def cmd checkNonzero_def cmd_count_new sums_from_origin
              del: upt_Suc)
    qed
  qed
qed


text \<open>
  Claim C5 at an input where the code departs from it. A POINT feature whose MoveTo
  command has count 2, with the deltas (1,2) and (3,4), decodes to the two points (1,2)
  and (4,6), the running sums, in decode order, as the claim says. The claim says that
  they form a MultiPoint; the builder, under its comment \<open>// multi point\<close>, returns
  them in a plain \<open>OGRGeometryCollection\<close>, not in an \<open>OGRMultiPoint\<close>, where the
  line string and polygon builders return an \<open>OGRMultiLineString\<close> and an
  \<open>OGRMultiPolygon\<close>.
\<close>

theorem multi_point_is_geometry_collection:
  "points \<lparr>gr_trafo = Trafo_new 4096 None, gr_pos = [17, 1, 2, 3, 4]\<rparr> =
     Inr (Some (OGRGeometryCollection [OGRPoint 1 2, OGRPoint 4 6]))
   \<and> points \<lparr>gr_trafo = Trafo_new 4096 None, gr_pos = [17, 1, 2, 3, 4]\<rparr> \<noteq>
     Inr (Some (OGRMultiPoint [OGRPoint 1 2, OGRPoint 4 6]))"
  using points_cumulative [of "\<lparr>gr_trafo = Trafo_new 4096 None, gr_pos = [17, 1, 2, 3, 4]\<rparr>"
      17 "[(1, 2), (3, 4)]" "[]"]
  by simp

subsection \<open>Closed rings\<close>

text \<open>
  Claim C2. For a ring given as a MoveTo command of count 1 with its delta pair, a LineTo
  command of count \<open>k \<ge> 1\<close> with its \<open>k\<close> delta pairs, and a ClosePath command of
  count \<open>c\<close>: decoding fails with \<open>InvalidCount\<close> when \<open>c = 0\<close> and succeeds for every
  other \<open>c\<close> (the check is for a nonzero count, not for a count of one); the ring has
  \<open>k + 2\<close> coordinates, and its last coordinate is its first one, the point reached
  by the MoveTo.
\<close>

theorem closed_ring_decoding:
  assumes "gr_pos gr = mv # dx # dy # lt # params ds @ cp # rest"
    and "mv AND 7 = 1" and "drop_bit 3 mv = 1"
    and "lt AND 7 = 2" and "unat (drop_bit 3 lt) = length ds" and "1 \<le> length ds"
    and "cp AND 7 = 7"
  shows "let start = cur\<lparr>cur_x := cur_x cur + dx, cur_y := cur_y cur + dy\<rparr>;
             first = (real (unat (cur_x start)), real (unat (cur_y start)));
             ring = first # running_sums start ds @ [first]
         in singleLineString gr cur True =
              (if drop_bit 3 cp = 0 then Inl InvalidCount
               else Inr (ring, moved start ds, gr\<lparr>gr_pos := rest\<rparr>))
            \<and> hd ring = first \<and> last ring = first \<and> length ring = length ds + 2"
proof -
  have "ds \<noteq> []"
    using assms(6) by auto
  then show ?thesis
    using singleLineString_closed [OF assms(1-5) _ assms(7), of cur]
    by (simp add: Let_def length_running_sums)
qed

theorem closed_ring_decoding_witness:
  "singleLineString \<lparr>gr_trafo = Trafo_new 4096 None, gr_pos = [9, 1, 1, 18, 4, 0, 0, 4, 23]\<rparr>
     Cursor_new True =
     Inr ([(1, 1), (5, 1), (5, 5), (1, 1)], \<lparr>cur_x = 5, cur_y = 5\<rparr>,
          \<lparr>gr_trafo = Trafo_new 4096 None, gr_pos = []\<rparr>)
   \<and> singleLineString \<lparr>gr_trafo = Trafo_new 4096 None, gr_pos = [9, 1, 1, 18, 4, 0, 0, 4, 7]\<rparr>
     Cursor_new True = Inl InvalidCount"
  using closed_ring_decoding [of "\<lparr>gr_trafo = Trafo_new 4096 None, gr_pos = [9, 1, 1, 18, 4, 0, 0, 4, 23]\<rparr>"
      9 1 1 18 "[(4, 0), (0, 4)]" 23 "[]" Cursor_new]
    closed_ring_decoding [of "\<lparr>gr_trafo = Trafo_new 4096 None, gr_pos = [9, 1, 1, 18, 4, 0, 0, 4, 7]\<rparr>"
      9 1 1 18 "[(4, 0), (0, 4)]" 7 "[]" Cursor_new]
  by (simp add: Let_def Cursor_new_def running_sums_def moved_def)

subsection \<open>Line strings\<close>

text \<open>
  Claim C4. A line string is read from one MoveTo command, whose count must be exactly
  1 (any other count fails with \<open>InvalidCount\<close>), its delta pair, and one LineTo
  command of count \<open>k\<close>, where \<open>k = 0\<close> fails with \<open>InvalidCount\<close>, with its \<open>k\<close>
  delta pairs; it has exactly \<open>k + 1\<close> coordinates and starts at the point reached by
  the MoveTo. A LINESTRING feature decodes line strings until the stream is exhausted:
  when more than one was decoded the result is a MultiLineString of all of them in
  decode order, and when one was decoded it is that LineString (no line string at all
  gives the null geometry).
\<close>

theorem lineStrings_decoding:
  assumes "mv AND 7 = 1" and "lt AND 7 = 2" and "unat (drop_bit 3 lt) = length ds"
  shows "let start = cur\<lparr>cur_x := cur_x cur + dx, cur_y := cur_y cur + dy\<rparr>;
             first = (real (unat (cur_x start)), real (unat (cur_y start)));
             line = first # running_sums start ds
         in singleLineString (gr\<lparr>gr_pos := mv # dx # dy # lt # params ds @ rest\<rparr>) cur False =
              (if drop_bit 3 mv \<noteq> 1 then Inl InvalidCount
               else if length ds = 0 then Inl InvalidCount
               else Inr (line, moved start ds, gr\<lparr>gr_pos := rest\<rparr>))
            \<and> length line = length ds + 1
            \<and> hd line = first
            \<and> lineStrings gr' =
                (case decode_until_exhausted False gr' Cursor_new of
                   Inl e \<Rightarrow> Inl e
                 | Inr lss \<Rightarrow>
                     Inr (if length lss = 0 then None
                          else if length lss = 1 then Some (OGRLineString (hd lss))
                          else Some (OGRMultiLineString lss)))"
proof -
  have zero: "drop_bit 3 lt = 0 \<longleftrightarrow> length ds = 0"
    using assms(3) by (metis unat_eq_0)
  have single: "singleLineString (gr\<lparr>gr_pos := mv # dx # dy # lt # params ds @ rest\<rparr>) cur False =
              (if drop_bit 3 mv \<noteq> 1 then Inl InvalidCount
               else if length ds = 0 then Inl InvalidCount
               else Inr ((real (unat (cur_x cur + dx)), real (unat (cur_y cur + dy)))
                  # running_sums (cur\<lparr>cur_x := cur_x cur + dx, cur_y := cur_y cur + dy\<rparr>) ds,
                moved (cur\<lparr>cur_x := cur_x cur + dx, cur_y := cur_y cur + dy\<rparr>) ds,
                gr\<lparr>gr_pos := rest\<rparr>))"
  proof (cases "drop_bit 3 mv = 1")
    case False
    then show ?thesis
      using singleLineString_badMoveTo [OF assms(1)] by simp
  next
    case True
    show ?thesis
    proof (cases "length ds = 0")
      case True
      then show ?thesis
        using \<open>drop_bit 3 mv = 1\<close> zero
          singleLineString_badLineTo [OF assms(1) _ assms(2), of dx dy "rest" gr cur False]
        by simp
    next
      case False
      then show ?thesis
        using \<open>drop_bit 3 mv = 1\<close>
          singleLineString_open [of "gr\<lparr>gr_pos := mv # dx # dy # lt # params ds @ rest\<rparr>"
            mv dx dy lt ds rest cur] assms
        by simp
    qed
  qed
  have all: "lineStrings gr' =
                (case decode_until_exhausted False gr' Cursor_new of
                   Inl e \<Rightarrow> Inl e
                 | Inr lss \<Rightarrow>
                     Inr (if length lss = 0 then None
                          else if length lss = 1 then Some (OGRLineString (hd lss))
                          else Some (OGRMultiLineString lss)))"
    by (simp add: lineStrings_def lineStrings_loop_decode split: sum.splits)
  show ?thesis
    using single all by (simp add: Let_def length_running_sums)
qed

theorem lineStrings_decoding_witness:
  "singleLineString \<lparr>gr_trafo = Trafo_new 4096 None, gr_pos = [9, 1, 1, 18, 4, 0, 0, 4]\<rparr>
     Cursor_new False =
     Inr ([(1, 1), (5, 1), (5, 5)], \<lparr>cur_x = 5, cur_y = 5\<rparr>,
          \<lparr>gr_trafo = Trafo_new 4096 None, gr_pos = []\<rparr>)
   \<and> lineStrings \<lparr>gr_trafo = Trafo_new 4096 None, gr_pos = [9, 1, 1, 10, 2, 2, 9, 1, 1, 10, 3, 3]\<rparr> =
     Inr (Some (OGRMultiLineString [[(1, 1), (3, 3)], [(4, 4), (7, 7)]]))"
  using lineStrings_decoding [where mv = 9 and lt = 18 and ds = "[(4, 0), (0, 4)]"
      and cur = Cursor_new and dx = 1 and dy = 1 and rest = "[]"
      and gr = "\<lparr>gr_trafo = Trafo_new 4096 None, gr_pos = []\<rparr>"
      and gr' = "\<lparr>gr_trafo = Trafo_new 4096 None, gr_pos = [9, 1, 1, 10, 2, 2, 9, 1, 1, 10, 3, 3]\<rparr>"]
  by (simp add: decode_eval running_sums_def moved_def)

subsection \<open>Polygons\<close>

text \<open>
  Claim C1. For a POLYGON feature whose command stream decodes as the sequence
  \<open>rings\<close> of closed rings, the builder returns what the grouping by orientation
  returns on \<open>rings\<close>: each ring is appended to the open polygon, which is opened if
  there is none; a clockwise ring that finds a polygon open first pushes that polygon
  into the MultiPolygon, created on first need; at the end a started MultiPolygon
  receives the last open polygon and is returned, otherwise the single polygon is (and
  nothing when there was no ring). Hence the polygons of the result, concatenated, are
  the rings in decode order; every ring of a polygon after its first is
  counter-clockwise, a hole of that polygon; every polygon after the first starts with
  a clockwise ring; and the result is a MultiPolygon exactly when a ring after the
  first one is clockwise.
\<close>

theorem polygons_group_by_orientation:
  assumes "decode_until_exhausted True gr Cursor_new = Inr rings"
  shows "polygons isClockwise gr = Inr (group_rings isClockwise rings None None)
         \<and> concat (polygons_of (group_rings isClockwise rings None None)) = rings
         \<and> (\<forall>p \<in> set (polygons_of (group_rings isClockwise rings None None)).
               p \<noteq> [] \<and> (\<forall>r \<in> set (tl p). \<not> isClockwise r))
         \<and> (\<forall>p \<in> set (tl (polygons_of (group_rings isClockwise rings None None))).
               isClockwise (hd p))
         \<and> ((\<exists>ps. group_rings isClockwise rings None None = Some (OGRMultiPolygon ps)) \<longleftrightarrow>
               (\<exists>r \<in> set (tl rings). isClockwise r))
         \<and> ((\<exists>p. group_rings isClockwise rings None None = Some (OGRPolygon p)) \<longleftrightarrow>
               rings \<noteq> [] \<and> (\<forall>r \<in> set (tl rings). \<not> isClockwise r))
         \<and> (group_rings isClockwise rings None None = None \<longleftrightarrow> rings = [])"
proof -
  have run: "polygons isClockwise gr = Inr (group_rings isClockwise rings None None)"
    using polygons_loop_decode [of isClockwise gr Cursor_new None None] assms
    by (simp add: polygons_def)
  show ?thesis
  proof (cases rings)
    case Nil
    with run show ?thesis by simp
  next
    case (Cons r rs)
    let ?g = "group_rings isClockwise rs (Some [r]) None"
    have g: "group_rings isClockwise rings None None = ?g"
      using Cons by simp
    have c: "concat (polygons_of ?g) = rings"
      using group_rings_polygons [of isClockwise rs "[r]" None] Cons by simp
    have h: "\<forall>p \<in> set (polygons_of ?g). p \<noteq> [] \<and> (\<forall>r \<in> set (tl p). \<not> isClockwise r)"
      using group_rings_holes [of "[r]" isClockwise None _ rs] by simp
    have e: "\<forall>p \<in> set (tl (polygons_of ?g)). isClockwise (hd p)"
      using group_rings_exterior [of "[r]" None isClockwise _ rs] by simp
    have m: "(\<exists>ps. ?g = Some (OGRMultiPolygon ps)) \<longleftrightarrow> (\<exists>r \<in> set rs. isClockwise r)"
      using group_rings_multi [of isClockwise rs "[r]" None] by simp
    have s: "(\<exists>p. ?g = Some (OGRPolygon p)) \<longleftrightarrow> (\<forall>r \<in> set rs. \<not> isClockwise r)"
    proof
      assume "\<exists>p. ?g = Some (OGRPolygon p)"
      then have "\<not> (\<exists>ps. ?g = Some (OGRMultiPolygon ps))" by auto
      with m show "\<forall>r \<in> set rs. \<not> isClockwise r" by blast
    next
      assume "\<forall>r \<in> set rs. \<not> isClockwise r"
      then show "\<exists>p. ?g = Some (OGRPolygon p)"
        using group_rings_single [of None rs isClockwise "[r]"] by simp
    qed
    have n: "?g \<noteq> None"
      using c Cons by (cases ?g) auto
    show ?thesis
      unfolding g using run [unfolded g] c h e m s n Cons by simp
  qed
qed

theorem polygons_group_by_orientation_witness:
  "polygons shoelace_clockwise
     \<lparr>gr_trafo = Trafo_new 4096 None,
      gr_pos = [9, 0, 0, 18, 0, 4, 4, 0, 15,
                9, 1, 1, 18, 1, 0, 0, 1, 15,
                9, 4, 4, 18, 0, 2, 2, 0, 15]\<rparr> =
   Inr (Some (OGRMultiPolygon
     [[[(0, 0), (0, 4), (4, 4), (0, 0)], [(5, 5), (6, 5), (6, 6), (5, 5)]],
      [[(10, 10), (10, 12), (12, 12), (10, 10)]]]))"
  using polygons_group_by_orientation [of
      "\<lparr>gr_trafo = Trafo_new 4096 None,
        gr_pos = [9, 0, 0, 18, 0, 4, 4, 0, 15,
                  9, 1, 1, 18, 1, 0, 0, 1, 15,
                  9, 4, 4, 18, 0, 2, 2, 0, 15]\<rparr>"
      "[[(0, 0), (0, 4), (4, 4), (0, 0)], [(5, 5), (6, 5), (6, 6), (5, 5)],
        [(10, 10), (10, 12), (12, 12), (10, 10)]]"
      shoelace_clockwise]
  by (simp add: decode_eval lineTo_loop_numeral shoelace_clockwise_def)

subsection \<open>Failures of the geometry builder during iteration\<close>

text \<open>
  Claim C6, as the code has it. When the geometry of the next feature whose type is not
  \<open>UNKNOWN\<close> fails to decode with the error \<open>e\<close>, \<open>GetNextFeature\<close> catches the
  failure, reports \<open>e\<close> to the host's diagnostic channel and returns null, without
  propagating anything; it leaves the layer positioned at the failing feature, so a
  further call fails in the same way, and the host's iteration ends there with no
  feature.
\<close>

theorem decode_failure_reported:
  assumes "skip_unknown (ifeatures L) = f # rest"
    and "generateGeometry isClockwise f (trafo L) = Inl e"
  shows "GetNextFeature isClockwise L = Inr (None, [e], L\<lparr>ifeatures := f # rest\<rparr>)
         \<and> GetNextFeature isClockwise (L\<lparr>ifeatures := f # rest\<rparr>) =
             Inr (None, [e], L\<lparr>ifeatures := f # rest\<rparr>)
         \<and> pull_all isClockwise L = Inr ([], [e], L\<lparr>ifeatures := f # rest\<rparr>)"
proof -
  have "skip_unknown (f # rest) = f # rest"
    using assms(1) skip_unknown_idem [of "ifeatures L"] by simp
  then have "GetNextFeature isClockwise (L\<lparr>ifeatures := f # rest\<rparr>) =
               Inr (None, [e], L\<lparr>ifeatures := f # rest\<rparr>)"
    using GetNextFeature_failure [of "L\<lparr>ifeatures := f # rest\<rparr>" f rest isClockwise e] assms(2)
    by simp
  then show ?thesis
    using assms by (simp add: GetNextFeature_failure pull_all_failure)
qed

theorem decode_failure_reported_witness:
  "GetNextFeature shoelace_clockwise
     (Layer_new \<lparr>ds_srs = None, ds_extents = None\<rparr>
        \<lparr>layer_name = ''roads'', layer_extent = 4096,
         layer_features =
           [\<lparr>feature_type = UNKNOWN, feature_id = None, feature_geometry = []\<rparr>,
            \<lparr>feature_type = POINT, feature_id = Some 1, feature_geometry = [9, 5]\<rparr>,
            \<lparr>feature_type = POINT, feature_id = Some 2, feature_geometry = [9, 5, 7]\<rparr>]\<rparr>) =
   Inr (None, [StreamUnderrun],
     (Layer_new \<lparr>ds_srs = None, ds_extents = None\<rparr>
        \<lparr>layer_name = ''roads'', layer_extent = 4096,
         layer_features =
           [\<lparr>feature_type = UNKNOWN, feature_id = None, feature_geometry = []\<rparr>,
            \<lparr>feature_type = POINT, feature_id = Some 1, feature_geometry = [9, 5]\<rparr>,
            \<lparr>feature_type = POINT, feature_id = Some 2, feature_geometry = [9, 5, 7]\<rparr>]\<rparr>)
     \<lparr>ifeatures :=
        [\<lparr>feature_type = POINT, feature_id = Some 1, feature_geometry = [9, 5]\<rparr>,
         \<lparr>feature_type = POINT, feature_id = Some 2, feature_geometry = [9, 5, 7]\<rparr>]\<rparr>)"
  using decode_failure_reported [of
      "Layer_new \<lparr>ds_srs = None, ds_extents = None\<rparr>
        \<lparr>layer_name = ''roads'', layer_extent = 4096,
         layer_features =
           [\<lparr>feature_type = UNKNOWN, feature_id = None, feature_geometry = []\<rparr>,
            \<lparr>feature_type = POINT, feature_id = Some 1, feature_geometry = [9, 5]\<rparr>,
            \<lparr>feature_type = POINT, feature_id = Some 2, feature_geometry = [9, 5, 7]\<rparr>]\<rparr>"
      "\<lparr>feature_type = POINT, feature_id = Some 1, feature_geometry = [9, 5]\<rparr>"
      "[\<lparr>feature_type = POINT, feature_id = Some 2, feature_geometry = [9, 5, 7]\<rparr>]"
      shoelace_clockwise StreamUnderrun]
  by (simp add: layer_eval)

text \<open>
  The claim as stated says that the failing feature is skipped and the iteration
  continues. In a layer of two POINT features, the first with a truncated stream and the
  second well-formed, the call reports \<open>StreamUnderrun\<close>, returns null and leaves the
  layer as it found it, with both features unread: the next call is the same call.
\<close>

theorem failing_feature_not_skipped:
  "GetNextFeature shoelace_clockwise
     \<lparr>layer = \<lparr>layer_name = ''roads'', layer_extent = 4096,
         layer_features =
           [\<lparr>feature_type = POINT, feature_id = Some 1, feature_geometry = [9, 5]\<rparr>,
            \<lparr>feature_type = POINT, feature_id = Some 2, feature_geometry = [9, 5, 7]\<rparr>]\<rparr>,
      ifeatures =
           [\<lparr>feature_type = POINT, feature_id = Some 1, feature_geometry = [9, 5]\<rparr>,
            \<lparr>feature_type = POINT, feature_id = Some 2, feature_geometry = [9, 5, 7]\<rparr>],
      srs = None, trafo = Trafo_new 4096 None\<rparr> =
   Inr (None, [StreamUnderrun],
     \<lparr>layer = \<lparr>layer_name = ''roads'', layer_extent = 4096,
         layer_features =
           [\<lparr>feature_type = POINT, feature_id = Some 1, feature_geometry = [9, 5]\<rparr>,
            \<lparr>feature_type = POINT, feature_id = Some 2, feature_geometry = [9, 5, 7]\<rparr>]\<rparr>,
      ifeatures =
           [\<lparr>feature_type = POINT, feature_id = Some 1, feature_geometry = [9, 5]\<rparr>,
            \<lparr>feature_type = POINT, feature_id = Some 2, feature_geometry = [9, 5, 7]\<rparr>],
      srs = None, trafo = Trafo_new 4096 None\<rparr>)
   \<and> generateGeometry shoelace_clockwise
       \<lparr>feature_type = POINT, feature_id = Some 2, feature_geometry = [9, 5, 7]\<rparr>
       (Trafo_new 4096 None) = Inr (Some (OGRPoint 5 7))"
  by (simp add: layer_eval)

subsection \<open>Iteration over a layer\<close>

text \<open>
  Claim C7, as the code has it. For a layer in which every feature whose type is not
  \<open>UNKNOWN\<close> materializes (its geometry decodes without error and, when the layer has
  a spatial reference, is not null), the iteration from the first feature yields exactly
  those features, materialized, in declaration order, and reports no error; a call on
  the exhausted layer returns null; after \<open>ResetReading\<close> a full iteration yields the
  same sequence; and \<open>GetFeatureCount\<close> is the number of all declared features,
  \<open>UNKNOWN\<close> ones included, before and after the iteration.
\<close>

theorem iteration_yields_known_features:
  assumes "those (map (materialized isClockwise L) (known (layer_features (layer L)))) = Some feats"
  shows "pull_all isClockwise (ResetReading L) = Inr (feats, [], L\<lparr>ifeatures := []\<rparr>)
         \<and> length feats = length (known (layer_features (layer L)))
         \<and> GetNextFeature isClockwise (L\<lparr>ifeatures := []\<rparr>) = Inr (None, [], L\<lparr>ifeatures := []\<rparr>)
         \<and> pull_all isClockwise (ResetReading (L\<lparr>ifeatures := []\<rparr>)) =
             Inr (feats, [], L\<lparr>ifeatures := []\<rparr>)
         \<and> GetFeatureCount L force = int (length (layer_features (layer L)))
         \<and> GetFeatureCount (L\<lparr>ifeatures := []\<rparr>) force = GetFeatureCount L force"
proof -
  have "pull_all isClockwise (L\<lparr>ifeatures := layer_features (layer L)\<rparr>) =
          Inr (feats, [], L\<lparr>ifeatures := []\<rparr>)"
    using assms by (rule pull_all_materialized)
  moreover have "length feats = length (known (layer_features (layer L)))"
    using those_length [OF assms] by simp
  ultimately show ?thesis
    by (simp add: ResetReading_def GetFeatureCount_def GetNextFeature_exhausted)
qed

theorem iteration_yields_known_features_witness:
  "pull_all shoelace_clockwise
     (ResetReading (Layer_new \<lparr>ds_srs = None, ds_extents = None\<rparr>
        \<lparr>layer_name = ''places'', layer_extent = 4096,
         layer_features =
           [\<lparr>feature_type = UNKNOWN, feature_id = None, feature_geometry = []\<rparr>,
            \<lparr>feature_type = POINT, feature_id = Some 1, feature_geometry = [9, 5, 7]\<rparr>,
            \<lparr>feature_type = UNKNOWN, feature_id = Some 2, feature_geometry = [9, 1, 1]\<rparr>,
            \<lparr>feature_type = POINT, feature_id = None, feature_geometry = [9, 2, 3]\<rparr>]\<rparr>)) =
   Inr ([\<lparr>feat_geom_type = wkbPoint, feat_fid = Some 1,
          feat_geometry = Some (OGRPoint 5 7), feat_geometry_srs = None\<rparr>,
         \<lparr>feat_geom_type = wkbPoint, feat_fid = None,
          feat_geometry = Some (OGRPoint 2 3), feat_geometry_srs = None\<rparr>],
        [],
        (Layer_new \<lparr>ds_srs = None, ds_extents = None\<rparr>
        \<lparr>layer_name = ''places'', layer_extent = 4096,
         layer_features =
           [\<lparr>feature_type = UNKNOWN, feature_id = None, feature_geometry = []\<rparr>,
            \<lparr>feature_type = POINT, feature_id = Some 1, feature_geometry = [9, 5, 7]\<rparr>,
            \<lparr>feature_type = UNKNOWN, feature_id = Some 2, feature_geometry = [9, 1, 1]\<rparr>,
            \<lparr>feature_type = POINT, feature_id = None, feature_geometry = [9, 2, 3]\<rparr>]\<rparr>)
        \<lparr>ifeatures := []\<rparr>)
   \<and> GetFeatureCount
       (Layer_new \<lparr>ds_srs = None, ds_extents = None\<rparr>
        \<lparr>layer_name = ''places'', layer_extent = 4096,
         layer_features =
           [\<lparr>feature_type = UNKNOWN, feature_id = None, feature_geometry = []\<rparr>,
            \<lparr>feature_type = POINT, feature_id = Some 1, feature_geometry = [9, 5, 7]\<rparr>,
            \<lparr>feature_type = UNKNOWN, feature_id = Some 2, feature_geometry = [9, 1, 1]\<rparr>,
            \<lparr>feature_type = POINT, feature_id = None, feature_geometry = [9, 2, 3]\<rparr>]\<rparr>) 1 = 4"
  using iteration_yields_known_features [of shoelace_clockwise
      "Layer_new \<lparr>ds_srs = None, ds_extents = None\<rparr>
        \<lparr>layer_name = ''places'', layer_extent = 4096,
         layer_features =
           [\<lparr>feature_type = UNKNOWN, feature_id = None, feature_geometry = []\<rparr>,
            \<lparr>feature_type = POINT, feature_id = Some 1, feature_geometry = [9, 5, 7]\<rparr>,
            \<lparr>feature_type = UNKNOWN, feature_id = Some 2, feature_geometry = [9, 1, 1]\<rparr>,
            \<lparr>feature_type = POINT, feature_id = None, feature_geometry = [9, 2, 3]\<rparr>]\<rparr>"
      "[\<lparr>feat_geom_type = wkbPoint, feat_fid = Some 1,
          feat_geometry = Some (OGRPoint 5 7), feat_geometry_srs = None\<rparr>,
         \<lparr>feat_geom_type = wkbPoint, feat_fid = None,
          feat_geometry = Some (OGRPoint 2 3), feat_geometry_srs = None\<rparr>]" 1]
  by (simp add: layer_eval)

text \<open>
  The claim as stated is about every layer. In a layer of two POINT features, the first
  with a truncated stream, the iteration yields no feature at all, although both
  features have a known type and the second one decodes to a point.
\<close>

theorem iteration_stops_at_failing_feature:
  "pull_all shoelace_clockwise
     (ResetReading (Layer_new \<lparr>ds_srs = None, ds_extents = None\<rparr>
        \<lparr>layer_name = ''places'', layer_extent = 4096,
         layer_features =
           [\<lparr>feature_type = POINT, feature_id = Some 1, feature_geometry = [9, 5]\<rparr>,
            \<lparr>feature_type = POINT, feature_id = Some 2, feature_geometry = [9, 5, 7]\<rparr>]\<rparr>)) =
   Inr ([], [StreamUnderrun],
        Layer_new \<lparr>ds_srs = None, ds_extents = None\<rparr>
        \<lparr>layer_name = ''places'', layer_extent = 4096,
         layer_features =
           [\<lparr>feature_type = POINT, feature_id = Some 1, feature_geometry = [9, 5]\<rparr>,
            \<lparr>feature_type = POINT, feature_id = Some 2, feature_geometry = [9, 5, 7]\<rparr>]\<rparr>)
   \<and> known
        [\<lparr>feature_type = POINT, feature_id = Some 1, feature_geometry = [9, 5]\<rparr>,
         \<lparr>feature_type = POINT, feature_id = Some 2, feature_geometry = [9, 5, 7]\<rparr>] =
        [\<lparr>feature_type = POINT, feature_id = Some 1, feature_geometry = [9, 5]\<rparr>,
         \<lparr>feature_type = POINT, feature_id = Some 2, feature_geometry = [9, 5, 7]\<rparr>]
   \<and> generateGeometry shoelace_clockwise
       \<lparr>feature_type = POINT, feature_id = Some 2, feature_geometry = [9, 5, 7]\<rparr>
       (Trafo_new 4096 None) = Inr (Some (OGRPoint 5 7))"
  by (simp add: layer_eval pull_all.simps)

subsection \<open>Empty command streams\<close>

text \<open>
  Claim C10 at an input where the code departs from it. For a LINESTRING feature with an
  empty command stream the builder raises no error and returns the null geometry. In a
  layer with a spatial reference, \<open>GetNextFeature\<close> then calls
  \<open>assignSpatialReference\<close> through the null pointer instead of emitting the feature
  with a null geometry.
\<close>

theorem empty_stream_with_srs:
  "generateGeometry shoelace_clockwise
     \<lparr>feature_type = LINESTRING, feature_id = Some 1, feature_geometry = []\<rparr>
     (Trafo_new 4096 None) = Inr None
   \<and> GetNextFeature shoelace_clockwise
     (Layer_new \<lparr>ds_srs = Some ''EPSG:3857'', ds_extents = None\<rparr>
        \<lparr>layer_name = ''roads'', layer_extent = 4096,
         layer_features =
           [\<lparr>feature_type = LINESTRING, feature_id = Some 1, feature_geometry = []\<rparr>]\<rparr>) =
     Inl NullDereference"
  by (simp add: layer_eval)

subsection \<open>The blended pixel\<close>




end
